theory Spec2Isabelle
  imports Complex_Main "HOL-Library.Word"
begin

section \<open>Exceptions\<close>

text \<open>
  The exceptions that the two source files raise themselves (\<open>ValueError\<close>,
  \<open>NotImplementedError\<close>) and the ones the libraries below them raise on the paths
  the model follows: a cache file that exists but cannot be unpickled, a boolean mask or
  an index that does not fit the array, operands whose shapes do not fit, an attribute that
  was never assigned.
\<close>

datatype error =
    ValueError
  | NotImplementedError
  | LoadError
  | IndexError
  | RuntimeError
  | AttributeError

section \<open>The dataset loader (datasets/sine.py)\<close>

subsection \<open>numpy scalars\<close>

text \<open>
  A numpy floating-point scalar is a finite number, one of the two infinities, or NaN.
  An operation on finite numbers computes the exact result and rounds it to the format:
  the rounding function \<open>rnd\<close> is a parameter of the model. It yields the nearest number
  of the format, or an infinity when the exact result is beyond the range. What IEEE 754
  prescribes for the non-finite operands and for a zero divisor is written out, because
  numpy does not raise there: it returns \<open>inf\<close> or \<open>nan\<close>. The sign of zero is left
  out.
\<close>

datatype npfloat = Fin real | PInf | NInf | NaN

fun np_neg :: "npfloat \<Rightarrow> npfloat" where
  "np_neg (Fin a) = Fin (- a)"
| "np_neg PInf = NInf"
| "np_neg NInf = PInf"
| "np_neg NaN = NaN"

fun np_add :: "(real \<Rightarrow> npfloat) \<Rightarrow> npfloat \<Rightarrow> npfloat \<Rightarrow> npfloat" where
  "np_add rnd (Fin a) (Fin b) = rnd (a + b)"
| "np_add rnd NaN y = NaN"
| "np_add rnd x NaN = NaN"
| "np_add rnd PInf NInf = NaN"
| "np_add rnd NInf PInf = NaN"
| "np_add rnd PInf y = PInf"
| "np_add rnd x PInf = PInf"
| "np_add rnd NInf y = NInf"
| "np_add rnd x NInf = NInf"

definition np_sub :: "(real \<Rightarrow> npfloat) \<Rightarrow> npfloat \<Rightarrow> npfloat \<Rightarrow> npfloat" where
  "np_sub rnd x y = np_add rnd x (np_neg y)"

fun np_mul :: "(real \<Rightarrow> npfloat) \<Rightarrow> npfloat \<Rightarrow> npfloat \<Rightarrow> npfloat" where
  "np_mul rnd (Fin a) (Fin b) = rnd (a * b)"
| "np_mul rnd NaN y = NaN"
| "np_mul rnd x NaN = NaN"
| "np_mul rnd PInf (Fin b) = (if b = 0 then NaN else if 0 < b then PInf else NInf)"
| "np_mul rnd NInf (Fin b) = (if b = 0 then NaN else if 0 < b then NInf else PInf)"
| "np_mul rnd (Fin a) PInf = (if a = 0 then NaN else if 0 < a then PInf else NInf)"
| "np_mul rnd (Fin a) NInf = (if a = 0 then NaN else if 0 < a then NInf else PInf)"
| "np_mul rnd PInf PInf = PInf"
| "np_mul rnd NInf NInf = PInf"
| "np_mul rnd PInf NInf = NInf"
| "np_mul rnd NInf PInf = NInf"

fun np_div :: "(real \<Rightarrow> npfloat) \<Rightarrow> npfloat \<Rightarrow> npfloat \<Rightarrow> npfloat" where
  "np_div rnd (Fin a) (Fin b) =
     (if b = 0 then (if a = 0 then NaN else if 0 < a then PInf else NInf)
      else rnd (a / b))"
| "np_div rnd NaN y = NaN"
| "np_div rnd x NaN = NaN"
| "np_div rnd PInf (Fin b) = (if 0 \<le> b then PInf else NInf)"
| "np_div rnd NInf (Fin b) = (if 0 \<le> b then NInf else PInf)"
| "np_div rnd (Fin a) PInf = Fin 0"
| "np_div rnd (Fin a) NInf = Fin 0"
| "np_div rnd PInf PInf = NaN"
| "np_div rnd PInf NInf = NaN"
| "np_div rnd NInf PInf = NaN"
| "np_div rnd NInf NInf = NaN"

fun np_sqrt :: "(real \<Rightarrow> npfloat) \<Rightarrow> npfloat \<Rightarrow> npfloat" where
  "np_sqrt rnd (Fin a) = (if a < 0 then NaN else rnd (sqrt a))"
| "np_sqrt rnd PInf = PInf"
| "np_sqrt rnd NInf = NaN"
| "np_sqrt rnd NaN = NaN"


subsection \<open>Two-dimensional arrays and their reductions along axis 0\<close>

text \<open>
  The array \<open>data\<close> of the pickle has one row per sample and one column per feature:
  a list of rows. \<open>ncols\<close> reads the number of columns off the first row (an array
  without rows is \<open>[]\<close>, whatever its number of columns was).
\<close>

type_synonym ndarray = "npfloat list list"

definition ncols :: "ndarray \<Rightarrow> nat" where
  "ncols a = (case a of [] \<Rightarrow> 0 | r # _ \<Rightarrow> length r)"


text \<open>
  \<open>a.sum(0)\<close>: the rows are added up, column by column, one row after the other, and
  every addition rounds.
\<close>

definition sum0 :: "(real \<Rightarrow> npfloat) \<Rightarrow> ndarray \<Rightarrow> npfloat list" where
  "sum0 rnd a = foldl (\<lambda>acc r. map2 (np_add rnd) acc r) (replicate (ncols a) (Fin 0)) a"

text \<open>
  \<open>a.mean(0, keepdims=True)\<close>: the column sums divided by the number of rows (a count,
  which the format holds exactly).
\<close>

definition mean0 :: "(real \<Rightarrow> npfloat) \<Rightarrow> ndarray \<Rightarrow> npfloat list" where
  "mean0 rnd a = map (\<lambda>s. np_div rnd s (Fin (real (length a)))) (sum0 rnd a)"

text \<open>
  \<open>a - v\<close>, \<open>a * a\<close> and \<open>a / v\<close> with the row \<open>v\<close> of shape \<open>(1, F)\<close>
  broadcast over the rows of \<open>a\<close>.
\<close>

definition bsub :: "(real \<Rightarrow> npfloat) \<Rightarrow> ndarray \<Rightarrow> npfloat list \<Rightarrow> ndarray" where
  "bsub rnd a v = map (\<lambda>r. map2 (np_sub rnd) r v) a"

definition bdiv :: "(real \<Rightarrow> npfloat) \<Rightarrow> ndarray \<Rightarrow> npfloat list \<Rightarrow> ndarray" where
  "bdiv rnd a v = map (\<lambda>r. map2 (np_div rnd) r v) a"

definition square :: "(real \<Rightarrow> npfloat) \<Rightarrow> ndarray \<Rightarrow> ndarray" where
  "square rnd a = map (\<lambda>r. map2 (np_mul rnd) r r) a"

text \<open>
  \<open>a.std(0, keepdims=True)\<close> with numpy's default \<open>ddof=0\<close>: the square root of the
  mean of the squared deviations from the column mean.
\<close>

definition std0 :: "(real \<Rightarrow> npfloat) \<Rightarrow> ndarray \<Rightarrow> npfloat list" where
  "std0 rnd a = map (np_sqrt rnd) (mean0 rnd (square rnd (bsub rnd a (mean0 rnd a))))"

subsection \<open>The pickle and the cache\<close>

text \<open>
  The unpickled dictionary holds three parallel arrays under the keys \<open>'data'\<close>,
  \<open>'label'\<close> and \<open>'domain'\<close>. Labels and domains are integer arrays.
\<close>

record pickle =
  data :: ndarray
  label :: "int list"
  domain :: "int list"

text \<open>
  What the file system holds at a path: nothing, a file that \<open>pickle.load\<close> cannot
  read, or a pickled dictionary.
\<close>

datatype cache_file = Missing | Unreadable | Cached pickle

definition load_cache :: "(string \<Rightarrow> cache_file) \<Rightarrow> string \<Rightarrow> error + pickle" where
  "load_cache fs cache_path =
     (case fs cache_path of
        Missing \<Rightarrow> Inl NotImplementedError
      | Unreadable \<Rightarrow> Inl LoadError
      | Cached data_pkl \<Rightarrow> Inr data_pkl)"

subsection \<open>Boolean-mask indexing and the casts\<close>

text \<open>\<open>arr == v\<close>: the elementwise comparison of an integer array with a scalar.\<close>

definition eq_mask :: "int list \<Rightarrow> int \<Rightarrow> bool list" where
  "eq_mask arr v = map (\<lambda>x. x = v) arr"

text \<open>
  \<open>arr[idx]\<close> with a boolean array \<open>idx\<close>: the entries of \<open>arr\<close> at the positions
  where \<open>idx\<close> is true, in order. numpy raises IndexError when the mask is not as long
  as the array.
\<close>

fun take_mask :: "'a list \<Rightarrow> bool list \<Rightarrow> 'a list" where
  "take_mask (x # xs) (b # bs) = (if b then x # take_mask xs bs else take_mask xs bs)"
| "take_mask xs bs = []"

definition bool_index :: "'a list \<Rightarrow> bool list \<Rightarrow> error + 'a list" where
  "bool_index arr idx =
     (if length idx = length arr then Inr (take_mask arr idx) else Inl IndexError)"

text \<open>
  \<open>astype(np.int64)\<close> on an integer array keeps the low 64 bits.
  \<open>astype(np.float32)\<close> rounds every entry to single precision: the rounding function
  \<open>f32\<close> is a parameter of the model.
\<close>

definition astype_int64 :: "int list \<Rightarrow> 64 word list" where
  "astype_int64 arr = map word_of_int arr"

definition astype_float32 :: "(npfloat \<Rightarrow> npfloat) \<Rightarrow> ndarray \<Rightarrow> ndarray" where
  "astype_float32 f32 a = map (map f32) a"

subsection \<open>MultipleEnvironmentSine\<close>

text \<open>
  The object under construction. An attribute that \<open>__init__\<close> has not assigned yet is
  \<open>None\<close>.
\<close>

record ('e, 'd) sine_obj =
  Environments :: "'e list"
  input_shape :: "nat list"
  num_classes :: nat
  normalize :: bool
  data_pkl :: "pickle option"
  datasets :: "'d list option"

text \<open>
  The loop \<open>for domain_id in range(len(environments))\<close>, over the domain indices still
  to do, with the list \<open>self.datasets\<close> built so far. An exception leaves the list as
  it is at that moment.
\<close>

fun build_datasets ::
  "(npfloat \<Rightarrow> npfloat) \<Rightarrow> (ndarray \<Rightarrow> 64 word list \<Rightarrow> 'd) \<Rightarrow> pickle \<Rightarrow> nat list \<Rightarrow> 'd list
     \<Rightarrow> 'd list \<times> error option" where
  "build_datasets f32 dataset_transform p [] acc = (acc, None)"
| "build_datasets f32 dataset_transform p (domain_id # rest) acc =
     (let idx = eq_mask (domain p) (int domain_id) in
      case bool_index (data p) idx of
        Inl e \<Rightarrow> (acc, Some e)
      | Inr dat \<Rightarrow>
          (case bool_index (label p) idx of
             Inl e \<Rightarrow> (acc, Some e)
           | Inr lab \<Rightarrow>
               build_datasets f32 dataset_transform p rest
                 (acc @ [dataset_transform (astype_float32 f32 dat) (astype_int64 lab)])))"

text \<open>
  \<open>MultipleEnvironmentSine.__init__\<close>. The result is the object as the constructor
  leaves it and the exception it raised, if any. The file system \<open>fs\<close>, the rounding
  \<open>rnd\<close> of the arithmetic and the rounding \<open>f32\<close> of the cast are parameters.
\<close>

definition MultipleEnvironmentSine_init ::
  "(string \<Rightarrow> cache_file) \<Rightarrow> (real \<Rightarrow> npfloat) \<Rightarrow> (npfloat \<Rightarrow> npfloat) \<Rightarrow> string option
     \<Rightarrow> 'e list \<Rightarrow> (ndarray \<Rightarrow> 64 word list \<Rightarrow> 'd) \<Rightarrow> nat list \<Rightarrow> nat
     \<Rightarrow> ('e, 'd) sine_obj \<times> error option" where
  "MultipleEnvironmentSine_init fs rnd f32 root_dir environments dataset_transform shp ncls =
     (let self = \<lparr>Environments = environments, input_shape = shp, num_classes = ncls,
                  normalize = True, data_pkl = None, datasets = None\<rparr>
      in case root_dir of
           None \<Rightarrow> (self, Some ValueError)
         | Some path \<Rightarrow>
             (case load_cache fs path of
                Inl e \<Rightarrow> (self, Some e)
              | Inr p \<Rightarrow>
                  (let p' = (if normalize self
                             then p\<lparr>data := bdiv rnd (bsub rnd (data p) (mean0 rnd (data p)))
                                                (std0 rnd (data p))\<rparr>
                             else p);
                       (ds, err) = build_datasets f32 dataset_transform p'
                                     [0..<length environments] []
                   in (self\<lparr>data_pkl := Some p', datasets := Some ds\<rparr>, err))))"

subsection \<open>ToySine\<close>

text \<open>
  \<open>TensorDataset(x, y)\<close>: the pair of the two tensors. \<open>process_dataset\<close> receives a
  float32 array and an int64 array, so \<open>.float()\<close> and \<open>.long()\<close> change nothing.
\<close>

record tensor_dataset =
  tensors_x :: ndarray
  tensors_y :: "64 word list"

definition process_dataset :: "ndarray \<Rightarrow> 64 word list \<Rightarrow> tensor_dataset" where
  "process_dataset dat labels = \<lparr>tensors_x = dat, tensors_y = labels\<rparr>"

definition ToySine_init ::
  "(string \<Rightarrow> cache_file) \<Rightarrow> (real \<Rightarrow> npfloat) \<Rightarrow> (npfloat \<Rightarrow> npfloat) \<Rightarrow> string option
     \<Rightarrow> nat list \<Rightarrow> nat \<Rightarrow> (nat, tensor_dataset) sine_obj \<times> error option" where
  "ToySine_init fs rnd f32 root_dir shp ncls =
     (let num_domains = 24;
          environments = [0..<num_domains]
      in MultipleEnvironmentSine_init fs rnd f32 root_dir environments process_dataset shp ncls)"


section \<open>The feature extractors (network/model_func.py)\<close>

subsection \<open>Tensors and the layers of torch.nn that the extractors use\<close>

text \<open>
  A batch is a list of rows, one feature vector per sample. The arithmetic of the layers is
  the arithmetic of the reals.
\<close>

type_synonym tensor = "real list list"

text \<open>
  \<open>nn.Linear(in_features, out_features)\<close> holds a weight matrix with one row per output
  feature and a bias vector. Its initial entries are drawn at random: they are the
  parameters \<open>w0\<close> and \<open>b0\<close> of the constructor, indexed by the position of the layer
  in the network and by the position of the entry.
\<close>

record linear =
  in_features :: nat
  out_features :: nat
  weight :: "real list list"
  bias :: "real list"

definition Linear :: "(nat \<Rightarrow> nat \<Rightarrow> real) \<Rightarrow> (nat \<Rightarrow> real) \<Rightarrow> nat \<Rightarrow> nat \<Rightarrow> linear" where
  "Linear w b n_in n_out =
     \<lparr>in_features = n_in, out_features = n_out,
      weight = map (\<lambda>j. map (\<lambda>i. w j i) [0..<n_in]) [0..<n_out],
      bias = map b [0..<n_out]\<rparr>"

definition dot :: "real list \<Rightarrow> real list \<Rightarrow> real" where
  "dot u v = sum_list (map2 (*) u v)"

text \<open>
  \<open>F.linear\<close> on every row of the batch; torch raises RuntimeError when a row does not
  have \<open>in_features\<close> entries.
\<close>

definition linear_forward :: "linear \<Rightarrow> tensor \<Rightarrow> error + tensor" where
  "linear_forward l x =
     (if list_all (\<lambda>r. length r = in_features l) x
      then Inr (map (\<lambda>r. map2 (\<lambda>wrow b. dot wrow r + b) (weight l) (bias l)) x)
      else Inl RuntimeError)"

definition relu :: "tensor \<Rightarrow> tensor" where
  "relu x = map (map (max 0)) x"

text \<open>
  \<open>nn.Dropout(p)\<close>; the constructor raises ValueError for a probability outside
  \<open>[0, 1]\<close>. In training mode every call draws a fresh random mask: the sampler
  \<open>smp\<close> and the state \<open>g\<close> of the random generator are parameters, and each call
  returns the next generator state. In evaluation mode the layer is the identity.
\<close>

record dropout_layer =
  drop_p :: real
  drop_training :: bool

definition Dropout :: "real \<Rightarrow> error + dropout_layer" where
  "Dropout rate =
     (if rate < 0 \<or> 1 < rate then Inl ValueError
      else Inr \<lparr>drop_p = rate, drop_training = True\<rparr>)"

definition dropout_forward ::
  "(real \<Rightarrow> tensor \<Rightarrow> 'g \<Rightarrow> tensor \<times> 'g) \<Rightarrow> dropout_layer \<Rightarrow> tensor \<Rightarrow> 'g \<Rightarrow> tensor \<times> 'g" where
  "dropout_forward smp d x g = (if drop_training d then smp (drop_p d) x g else (x, g))"

subsection \<open>LinearFeatExtractor\<close>

record hparams =
  mlp_depth :: int
  mlp_width :: nat
  mlp_dropout :: real

text \<open>Every extractor carries the attribute \<open>n_outputs\<close>.\<close>

record featurizer =
  n_outputs :: nat

text \<open>
  The attributes \<open>dropout\<close>, \<open>hiddens\<close> and \<open>output\<close> exist only when the
  constructor ran with a depth above one.
\<close>

record linear_feat_extractor = featurizer +
  num_layers :: int
  "input" :: linear
  dropout :: "dropout_layer option"
  hiddens :: "linear list option"
  "output" :: "linear option"

text \<open>
  \<open>LinearFeatExtractor.__init__\<close>. Layer 0 is \<open>input\<close>, layers \<open>1, 2, ...\<close> are the
  hidden ones in order and the last layer is \<open>output\<close>; \<open>input_shape[-1]\<close> raises
  IndexError on an empty shape, and \<open>range\<close> of a negative number is empty.
\<close>

definition LinearFeatExtractor_init ::
  "(nat \<Rightarrow> nat \<Rightarrow> nat \<Rightarrow> real) \<Rightarrow> (nat \<Rightarrow> nat \<Rightarrow> real) \<Rightarrow> nat list \<Rightarrow> nat \<Rightarrow> hparams
     \<Rightarrow> error + linear_feat_extractor" where
  "LinearFeatExtractor_init w0 b0 shp output_dim hp =
     (if shp = [] then Inl IndexError
      else
        (let n_inputs = last shp;
             k = nat (mlp_depth hp - 2);
             self = \<lparr>n_outputs = output_dim,
                     num_layers = mlp_depth hp,
                     input = Linear (w0 0) (b0 0) n_inputs (mlp_width hp),
                     dropout = None, hiddens = None, output = None\<rparr>
         in if num_layers self > 1 then
              (case Dropout (mlp_dropout hp) of
                 Inl e \<Rightarrow> Inl e
               | Inr d \<Rightarrow>
                   Inr (self\<lparr>dropout := Some d,
                              hiddens := Some (map (\<lambda>i. Linear (w0 (Suc i)) (b0 (Suc i))
                                                      (mlp_width hp) (mlp_width hp)) [0..<k]),
                              output := Some (Linear (w0 (Suc k)) (b0 (Suc k))
                                                (mlp_width hp) output_dim)\<rparr>))
            else Inr self))"

text \<open>The loop \<open>for hidden in self.hiddens\<close> of \<open>forward\<close>.\<close>

fun hidden_loop ::
  "(real \<Rightarrow> tensor \<Rightarrow> 'g \<Rightarrow> tensor \<times> 'g) \<Rightarrow> dropout_layer \<Rightarrow> linear list \<Rightarrow> tensor \<Rightarrow> 'g
     \<Rightarrow> error + tensor \<times> 'g" where
  "hidden_loop smp d [] x g = Inr (x, g)"
| "hidden_loop smp d (hidden # rest) x g =
     (case linear_forward hidden x of
        Inl e \<Rightarrow> Inl e
      | Inr x1 \<Rightarrow>
          (let (x2, g2) = dropout_forward smp d x1 g;
               x3 = relu x2
           in hidden_loop smp d rest x3 g2))"

text \<open>
  \<open>LinearFeatExtractor.forward\<close>: the output and the generator state after the call, or
  the exception raised.
\<close>

definition LinearFeatExtractor_forward ::
  "(real \<Rightarrow> tensor \<Rightarrow> 'g \<Rightarrow> tensor \<times> 'g) \<Rightarrow> linear_feat_extractor \<Rightarrow> tensor \<Rightarrow> 'g
     \<Rightarrow> error + tensor \<times> 'g" where
  "LinearFeatExtractor_forward smp self x g =
     (case linear_forward (input self) x of
        Inl e \<Rightarrow> Inl e
      | Inr x1 \<Rightarrow>
          if num_layers self > 1 then
            (case dropout self of
               None \<Rightarrow> Inl AttributeError
             | Some d \<Rightarrow>
                 (let (x2, g2) = dropout_forward smp d x1 g;
                      x3 = relu x2
                  in case hiddens self of
                       None \<Rightarrow> Inl AttributeError
                     | Some hs \<Rightarrow>
                         (case hidden_loop smp d hs x3 g2 of
                            Inl e \<Rightarrow> Inl e
                          | Inr (x4, g4) \<Rightarrow>
                              (case output self of
                                 None \<Rightarrow> Inl AttributeError
                               | Some out \<Rightarrow>
                                   (case linear_forward out x4 of
                                      Inl e \<Rightarrow> Inl e
                                    | Inr x5 \<Rightarrow> Inr (x5, g4))))))
          else Inr (x1, g))"

subsection \<open>Identity\<close>

text \<open>\<open>Identity.__init__\<close> and \<open>Identity.forward\<close>.\<close>

definition Identity_init :: "nat list \<Rightarrow> nat \<Rightarrow> 'h \<Rightarrow> error + featurizer" where
  "Identity_init shp output_dim hp =
     (if shp = [] then Inl IndexError else Inr \<lparr>n_outputs = last shp\<rparr>)"

definition Identity_forward :: "featurizer \<Rightarrow> 'x \<Rightarrow> 'x" where
  "Identity_forward self x = x"


subsection \<open>Module trees\<close>

text \<open>
  The network that torchvision returns is a tree of modules. Every module has the name
  under which its parent holds it, its own \<open>training\<close> flag and its children in the
  order of registration. Of the kinds of layer only those matter that the source tells
  apart: \<open>nn.Conv2d\<close> with its hyperparameters and weights, \<open>nn.BatchNorm2d\<close> and
  \<open>nn.Identity\<close>. The weight of a convolution is a list with one row per output
  channel; a row holds one kernel (of some type \<open>'k\<close>) per input channel.
\<close>

record 'k conv2d =
  in_channels :: nat
  out_channels :: nat
  kernel_size :: "nat \<times> nat"
  stride :: "nat \<times> nat"
  padding :: "nat \<times> nat"
  conv_bias :: "real list option"
  conv_weight :: "'k list list"

datatype 'k layer = Conv2d "'k conv2d" | BatchNorm2d | nn_Identity | Other

datatype 'k module =
  Module (mname: string) (mlayer: "'k layer") (training: bool) (children: "'k module list")

fun is_BatchNorm2d :: "'k layer \<Rightarrow> bool" where
  "is_BatchNorm2d BatchNorm2d = True"
| "is_BatchNorm2d l = False"

text \<open>\<open>nn.Module.train(mode)\<close> sets the flag of the module and of all its descendants.\<close>

fun Module_train :: "bool \<Rightarrow> 'k module \<Rightarrow> 'k module" where
  "Module_train mode (Module n l t cs) = Module n l mode (map (Module_train mode) cs)"

text \<open>\<open>nn.Module.modules()\<close>: the module itself, then the modules of every child.\<close>

fun modules :: "'k module \<Rightarrow> 'k module list" where
  "modules (Module n l t cs) = Module n l t cs # concat (map modules cs)"

text \<open>
  Attribute access, assignment and deletion of a child. Assigning under a name that is
  registered already replaces the child in place; a new name is appended.
\<close>

definition get_child :: "string \<Rightarrow> 'k module \<Rightarrow> error + 'k module" where
  "get_child nm m =
     (case find (\<lambda>c. mname c = nm) (children m) of
        None \<Rightarrow> Inl AttributeError
      | Some c \<Rightarrow> Inr c)"

fun assign :: "string \<Rightarrow> 'k module \<Rightarrow> 'k module list \<Rightarrow> 'k module list" where
  "assign nm c [] = [c]"
| "assign nm c (x # xs) = (if mname x = nm then c # xs else x # assign nm c xs)"

definition set_child :: "string \<Rightarrow> 'k layer \<Rightarrow> 'k module \<Rightarrow> 'k module" where
  "set_child nm l m =
     Module (mname m) (mlayer m) (training m) (assign nm (Module nm l True []) (children m))"

definition del_child :: "string \<Rightarrow> 'k module \<Rightarrow> error + 'k module" where
  "del_child nm m =
     (case find (\<lambda>c. mname c = nm) (children m) of
        None \<Rightarrow> Inl AttributeError
      | Some c \<Rightarrow>
          Inr (Module (mname m) (mlayer m) (training m)
                 (filter (\<lambda>c. mname c \<noteq> nm) (children m))))"

subsection \<open>ResNet\<close>

text \<open>
  \<open>nn.Conv2d(n_in, n_out, kernel_size, stride, padding, bias=False)\<close>: a fresh
  convolution, whose weight has \<open>n_out\<close> rows of \<open>n_in\<close> kernels drawn by the
  initialiser \<open>init\<close>.
\<close>

definition Conv2d_no_bias ::
  "(nat \<Rightarrow> nat \<Rightarrow> 'k) \<Rightarrow> nat \<Rightarrow> nat \<Rightarrow> nat \<times> nat \<Rightarrow> nat \<times> nat \<Rightarrow> nat \<times> nat \<Rightarrow> 'k conv2d" where
  "Conv2d_no_bias init n_in n_out ks st pd =
     \<lparr>in_channels = n_in, out_channels = n_out, kernel_size = ks, stride = st, padding = pd,
      conv_bias = None,
      conv_weight = map (\<lambda>j. map (\<lambda>i. init j i) [0..<n_in]) [0..<n_out]\<rparr>"

text \<open>
  The slice \<open>w[:, i, :, :]\<close> read and written. An input channel that a row does not have
  is an IndexError; a slice with another number of output channels than the target does
  not fit.
\<close>

definition get_channel :: "'k list list \<Rightarrow> nat \<Rightarrow> error + 'k list" where
  "get_channel w i =
     (if list_all (\<lambda>row. i < length row) w then Inr (map (\<lambda>row. row ! i) w)
      else Inl IndexError)"

definition set_channel :: "'k list list \<Rightarrow> nat \<Rightarrow> 'k list \<Rightarrow> error + 'k list list" where
  "set_channel w i s =
     (if \<not> list_all (\<lambda>row. i < length row) w then Inl IndexError
      else if length s \<noteq> length w then Inl RuntimeError
      else Inr (map2 (\<lambda>row k. row[i := k]) w s))"

text \<open>
  The loop \<open>for i in range(nc)\<close> with the body
  \<open>conv1.weight.data[:, i, :, :] = tmp[:, i % 3, :, :]\<close>.
\<close>

fun adapt_channels :: "'k list list \<Rightarrow> nat list \<Rightarrow> 'k list list \<Rightarrow> error + 'k list list" where
  "adapt_channels tmp [] w = Inr w"
| "adapt_channels tmp (i # rest) w =
     (case get_channel tmp (i mod 3) of
        Inl e \<Rightarrow> Inl e
      | Inr s \<Rightarrow>
          (case set_channel w i s of
             Inl e \<Rightarrow> Inl e
           | Inr w' \<Rightarrow> adapt_channels tmp rest w'))"

text \<open>
  \<open>ResNet.freeze_bn\<close>: \<open>m.eval()\<close>, that is \<open>m.train(False)\<close>, on every
  \<open>nn.BatchNorm2d\<close> among \<open>self.network.modules()\<close>. The walk is in pre-order, so a
  batch-norm module is put in evaluation mode together with its descendants, and visiting
  those afterwards changes nothing more.
\<close>

fun freeze_bn :: "'k module \<Rightarrow> 'k module" where
  "freeze_bn (Module n l t cs) =
     (if is_BatchNorm2d l then Module_train False (Module n l t cs)
      else Module n l t (map freeze_bn cs))"

record 'k resnet = featurizer +
  network :: "'k module"
  resnet_dropout :: dropout_layer
  resnet_training :: bool

text \<open>
  \<open>ResNet.__init__\<close>. The two torchvision constructors \<open>tv_resnet18\<close> and
  \<open>tv_resnet50\<close> and the weight initialiser of the new convolution are parameters.
\<close>

definition ResNet_init ::
  "(bool \<Rightarrow> 'k module) \<Rightarrow> (bool \<Rightarrow> 'k module) \<Rightarrow> (nat \<Rightarrow> nat \<Rightarrow> 'k)
     \<Rightarrow> string \<Rightarrow> nat list \<Rightarrow> bool \<Rightarrow> real \<Rightarrow> error + 'k resnet" where
  "ResNet_init tv_resnet18 tv_resnet50 init arch shp pretrained drop_rate =
     (let (net0, n_out) = (if arch = ''resnet18'' then (tv_resnet18 pretrained, 512)
                           else (tv_resnet50 pretrained, 2048))
      in if shp = [] then Inl IndexError
         else
           (let nc = hd shp in
            case (if nc \<noteq> 3 then
                    (case get_child ''conv1'' net0 of
                       Inl e \<Rightarrow> Inl e
                     | Inr c \<Rightarrow>
                         (case mlayer c of
                            Conv2d old \<Rightarrow>
                              (let tmp = conv_weight old;
                                   new = Conv2d_no_bias init nc 64 (7, 7) (2, 2) (3, 3)
                               in case adapt_channels tmp [0..<nc] (conv_weight new) of
                                    Inl e \<Rightarrow> Inl e
                                  | Inr w \<Rightarrow>
                                      Inr (set_child ''conv1''
                                             (Conv2d (new\<lparr>conv_weight := w\<rparr>)) net0))
                          | _ \<Rightarrow> Inl AttributeError))
                  else Inr net0) of
              Inl e \<Rightarrow> Inl e
            | Inr net1 \<Rightarrow>
                (case del_child ''fc'' net1 of
                   Inl e \<Rightarrow> Inl e
                 | Inr net2 \<Rightarrow>
                     (let net3 = set_child ''fc'' nn_Identity net2;
                          net4 = freeze_bn net3
                      in case Dropout drop_rate of
                           Inl e \<Rightarrow> Inl e
                         | Inr d \<Rightarrow>
                             Inr \<lparr>n_outputs = n_out, network = net4,
                                  resnet_dropout = d, resnet_training = True\<rparr>))))"

text \<open>
  \<open>ResNet.train\<close>: the inherited \<open>train(mode)\<close> on the extractor and its two
  children, then \<open>freeze_bn\<close>. The method returns nothing; the result here is the
  object after the call.
\<close>

definition ResNet_train :: "bool \<Rightarrow> 'k resnet \<Rightarrow> 'k resnet" where
  "ResNet_train mode self =
     (let self1 = self\<lparr>resnet_training := mode,
                       network := Module_train mode (network self),
                       resnet_dropout := (resnet_dropout self)\<lparr>drop_training := mode\<rparr>\<rparr>
      in self1\<lparr>network := freeze_bn (network self1)\<rparr>)"

section \<open>Notions used to state the properties\<close>

subsection \<open>Samples of a domain\<close>

text \<open>
  The positions of the samples whose \<open>'domain'\<close> entry equals \<open>d\<close>, in increasing
  order, and the entries of an array at a list of positions.
\<close>

definition samples_of_domain :: "int list \<Rightarrow> nat \<Rightarrow> nat list" where
  "samples_of_domain doms d = filter (\<lambda>i. doms ! i = int d) [0..<length doms]"

definition rows_at :: "'a list \<Rightarrow> nat list \<Rightarrow> 'a list" where
  "rows_at arr ixs = map (\<lambda>i. arr ! i) ixs"

text \<open>
  The normalisation expression of the loader, \<open>(a - a.mean(0)) / a.std(0)\<close>, on an
  arbitrary array; one row normalised with a given mean and standard deviation; and the
  reading in which every domain is normalised with the statistics of its own samples.
\<close>

definition normalised :: "(real \<Rightarrow> npfloat) \<Rightarrow> ndarray \<Rightarrow> ndarray" where
  "normalised rnd a = bdiv rnd (bsub rnd a (mean0 rnd a)) (std0 rnd a)"

definition normalise_row :: "(real \<Rightarrow> npfloat) \<Rightarrow> npfloat list \<Rightarrow> npfloat list \<Rightarrow> npfloat list \<Rightarrow> npfloat list" where
  "normalise_row rnd m s r = map2 (np_div rnd) (map2 (np_sub rnd) r m) s"

definition per_domain_normalised :: "(real \<Rightarrow> npfloat) \<Rightarrow> pickle \<Rightarrow> nat \<Rightarrow> ndarray" where
  "per_domain_normalised rnd p d = normalised rnd (rows_at (data p) (samples_of_domain (domain p) d))"

subsection \<open>The forward pass as a sequence of stages\<close>

text \<open>
  A stage is a linear layer, the dropout layer or the rectifier. Stages run one after the
  other; the first exception ends the run, and the generator state is handed on.
\<close>

datatype stage = Lin linear | Drop dropout_layer | Relu

fun run_stage ::
  "(real \<Rightarrow> tensor \<Rightarrow> 'g \<Rightarrow> tensor \<times> 'g) \<Rightarrow> stage \<Rightarrow> tensor \<Rightarrow> 'g \<Rightarrow> error + tensor \<times> 'g" where
  "run_stage smp (Lin l) x g = (case linear_forward l x of Inl e \<Rightarrow> Inl e | Inr y \<Rightarrow> Inr (y, g))"
| "run_stage smp (Drop d) x g = Inr (dropout_forward smp d x g)"
| "run_stage smp Relu x g = Inr (relu x, g)"

fun run_stages ::
  "(real \<Rightarrow> tensor \<Rightarrow> 'g \<Rightarrow> tensor \<times> 'g) \<Rightarrow> stage list \<Rightarrow> tensor \<Rightarrow> 'g \<Rightarrow> error + tensor \<times> 'g" where
  "run_stages smp [] x g = Inr (x, g)"
| "run_stages smp (s # ss) x g =
     (case run_stage smp s x g of Inl e \<Rightarrow> Inl e | Inr (y, g') \<Rightarrow> run_stages smp ss y g')"

text \<open>
  The stages of the deep network: the input layer with dropout and rectifier, every hidden
  layer with dropout and rectifier, the output layer.
\<close>

definition mlp_stages :: "linear \<Rightarrow> dropout_layer \<Rightarrow> linear list \<Rightarrow> linear \<Rightarrow> stage list" where
  "mlp_stages inp d hs out =
     [Lin inp, Drop d, Relu] @ concat (map (\<lambda>h. [Lin h, Drop d, Relu]) hs) @ [Lin out]"

subsection \<open>The network of a ResNet\<close>

text \<open>
  \<open>network.conv1\<close> as a convolution, if the network has such a child.
\<close>

definition conv1_of :: "'k module \<Rightarrow> 'k conv2d option" where
  "conv1_of net =
     (case get_child ''conv1'' net of
        Inl e \<Rightarrow> None
      | Inr c \<Rightarrow> (case mlayer c of Conv2d cv \<Rightarrow> Some cv | _ \<Rightarrow> None))"

text \<open>
  What \<open>ResNet.__init__\<close> relies on in the network that torchvision returns: the child
  \<open>conv1\<close> is a convolution whose weight has 64 output channels of 3 input channels
  each, and there is a child \<open>fc\<close>.
\<close>

definition is_torchvision_resnet :: "'k module \<Rightarrow> bool" where
  "is_torchvision_resnet net =
     ((case conv1_of net of
         None \<Rightarrow> False
       | Some cv \<Rightarrow> length (conv_weight cv) = 64 \<and>
                   list_all (\<lambda>row. length row = 3) (conv_weight cv)) \<and>
      (case get_child ''fc'' net of Inl e \<Rightarrow> False | Inr c \<Rightarrow> True))"

text \<open>
  Every \<open>nn.BatchNorm2d\<close> among the modules of a network is in evaluation mode.
\<close>

definition bn_frozen :: "'k module \<Rightarrow> bool" where
  "bn_frozen net = list_all (\<lambda>m. is_BatchNorm2d (mlayer m) \<longrightarrow> \<not> training m) (modules net)"

section \<open>Example inputs\<close>

text \<open>
  The rounding that leaves every result as it is. It agrees with the rounding of float64
  wherever the exact results are numbers of the format, as they are in the two pickles
  below (small integers and halves).
\<close>

definition exact :: "real \<Rightarrow> npfloat" where
  "exact x = Fin x"

text \<open>
  A pickle with five one-dimensional samples in two domains, a pickle whose first feature
  is constant and that has a sample of a domain beyond 23, and file systems that hold
  them.
\<close>

definition example_pickle :: pickle where
  "example_pickle =
     \<lparr>data = [[Fin 6], [Fin 0], [Fin 4], [Fin 2], [Fin 3]],
      label = [1, 0, 1, 0, 1],
      domain = [0, 0, 1, 1, 1]\<rparr>"

definition example_fs :: "string \<Rightarrow> cache_file" where
  "example_fs path = (if path = ''sine.pkl'' then Cached example_pickle else Missing)"

definition constant_pickle :: pickle where
  "constant_pickle =
     \<lparr>data = [[Fin 5, Fin 1], [Fin 5, Fin 3]],
      label = [0, 1],
      domain = [0, 30]\<rparr>"

definition constant_fs :: "string \<Rightarrow> cache_file" where
  "constant_fs path = (if path = ''const.pkl'' then Cached constant_pickle else Missing)"

text \<open>
  Hyperparameters of width 2, an initialiser that makes every linear layer subtract one
  from each entry, a stand-in for the dropout sampler that rescales by \<open>1 / (1 - p)\<close>
  and counts its calls, and the extractors of depth 1 and 3 that result.
\<close>

definition example_hparams :: "int \<Rightarrow> hparams" where
  "example_hparams depth = \<lparr>mlp_depth = depth, mlp_width = 2, mlp_dropout = 1/2\<rparr>"

definition example_w0 :: "nat \<Rightarrow> nat \<Rightarrow> nat \<Rightarrow> real" where
  "example_w0 k j i = (if j = i then 1 else 0)"

definition example_b0 :: "nat \<Rightarrow> nat \<Rightarrow> real" where
  "example_b0 k j = - 1"

definition example_smp :: "real \<Rightarrow> tensor \<Rightarrow> nat \<Rightarrow> tensor \<times> nat" where
  "example_smp rate x g = (map (map (\<lambda>v. v / (1 - rate))) x, Suc g)"

definition example_linear :: linear where
  "example_linear =
     \<lparr>in_features = 2, out_features = 2, weight = [[1, 0], [0, 1]], bias = [- 1, - 1]\<rparr>"

definition example_shallow :: linear_feat_extractor where
  "example_shallow =
     \<lparr>n_outputs = 2, num_layers = 1, input = example_linear,
      dropout = None, hiddens = None, output = None\<rparr>"

definition example_deep :: linear_feat_extractor where
  "example_deep =
     \<lparr>n_outputs = 2, num_layers = 3, input = example_linear,
      dropout = Some \<lparr>drop_p = 1/2, drop_training = True\<rparr>,
      hiddens = Some [example_linear],
      output = Some example_linear\<rparr>"

text \<open>
  A small network with the children that the constructor touches, two batch-norm modules
  (one of them nested), and the extractor that \<open>ResNet.__init__\<close> builds from it for a
  three-channel input.
\<close>

definition example_conv1 :: "nat conv2d" where
  "example_conv1 =
     \<lparr>in_channels = 3, out_channels = 64, kernel_size = (7, 7), stride = (2, 2),
      padding = (3, 3), conv_bias = None,
      conv_weight = map (\<lambda>j. [3 * j, 3 * j + 1, 3 * j + 2]) [0..<64]\<rparr>"

definition example_net :: "nat module" where
  "example_net =
     Module ''resnet'' Other True
       [Module ''conv1'' (Conv2d example_conv1) True [],
        Module ''bn1'' BatchNorm2d True [],
        Module ''layer1'' Other True
          [Module ''conv1'' Other True [], Module ''bn1'' BatchNorm2d True []],
        Module ''fc'' Other True []]"

definition example_tv :: "bool \<Rightarrow> nat module" where
  "example_tv pretrained = example_net"

definition example_init :: "nat \<Rightarrow> nat \<Rightarrow> nat" where
  "example_init j i = 1000"

definition example_resnet :: "nat resnet" where
  "example_resnet =
     \<lparr>n_outputs = 512,
      network =
        Module ''resnet'' Other True
          [Module ''conv1'' (Conv2d example_conv1) True [],
           Module ''bn1'' BatchNorm2d False [],
           Module ''layer1'' Other True
             [Module ''conv1'' Other True [], Module ''bn1'' BatchNorm2d False []],
           Module ''fc'' nn_Identity True []],
      resnet_dropout = \<lparr>drop_p = 1/2, drop_training = True\<rparr>,
      resnet_training = True\<rparr>"

section \<open>Properties of the dataset loader\<close>

subsection \<open>Boolean masks select by position\<close>

lemma take_mask_nth:
  "length bs = length xs \<Longrightarrow>
   take_mask xs bs = map (\<lambda>i. xs ! i) (filter (\<lambda>i. bs ! i) [0..<length xs])"
proof (induction xs bs rule: take_mask.induct)
  case (1 x xs b bs)
  have u: "[0..<Suc (length xs)] = 0 # map Suc [0..<length xs]"
    by (simp add: upt_conv_Cons map_Suc_upt del: upt_Suc)
  from 1 show ?case
    by (simp add: u filter_map comp_def del: upt_Suc)
qed simp_all

lemma bool_index_eq_mask:
  assumes "length doms = length arr"
  shows "bool_index arr (eq_mask doms (int d)) = Inr (rows_at arr (samples_of_domain doms d))"
proof -
  have "filter (\<lambda>i. eq_mask doms (int d) ! i) [0..<length arr]
        = filter (\<lambda>i. doms ! i = int d) [0..<length doms]"
    using assms by (auto simp: eq_mask_def intro: filter_cong)
  then show ?thesis
    using assms take_mask_nth [of "eq_mask doms (int d)" arr]
    by (simp add: bool_index_def rows_at_def samples_of_domain_def eq_mask_def)
qed

lemma samples_of_domain_bound:
  "i \<in> set (samples_of_domain doms d) \<Longrightarrow> i < length doms"
  by (simp add: samples_of_domain_def)

lemma build_datasets_ok:
  assumes "length (label p) = length (data p)" and "length (domain p) = length (data p)"
  shows "build_datasets f32 tr p ds acc =
     (acc @ map (\<lambda>d. tr (astype_float32 f32 (rows_at (data p) (samples_of_domain (domain p) d)))
                        (astype_int64 (rows_at (label p) (samples_of_domain (domain p) d)))) ds,
      None)"
  using assms
  by (induction ds arbitrary: acc) (simp_all add: bool_index_eq_mask)

text \<open>
  With a cache file whose three arrays have the same length, the constructor raises
  nothing and leaves the normalised pickle and one dataset per environment.
\<close>

lemma init_ok:
  assumes "fs path = Cached p"
    and "length (label p) = length (data p)" and "length (domain p) = length (data p)"
  shows "MultipleEnvironmentSine_init fs rnd f32 (Some path) envs tr shp ncls =
     (\<lparr>Environments = envs, input_shape = shp, num_classes = ncls, normalize = True,
       data_pkl = Some (p\<lparr>data := normalised rnd (data p)\<rparr>),
       datasets = Some (map (\<lambda>d. tr
          (astype_float32 f32 (rows_at (normalised rnd (data p)) (samples_of_domain (domain p) d)))
          (astype_int64 (rows_at (label p) (samples_of_domain (domain p) d))))
          [0..<length envs])\<rparr>, None)"
proof -
  let ?p = "p\<lparr>data := normalised rnd (data p)\<rparr>"
  have "length (data ?p) = length (data p)"
    by (simp add: normalised_def bdiv_def bsub_def)
  then have "length (label ?p) = length (data ?p)" "length (domain ?p) = length (data ?p)"
    using assms by simp_all
  then have "build_datasets f32 tr ?p [0..<length envs] [] =
     ([] @ map (\<lambda>d. tr (astype_float32 f32 (rows_at (data ?p) (samples_of_domain (domain ?p) d)))
                        (astype_int64 (rows_at (label ?p) (samples_of_domain (domain ?p) d))))
              [0..<length envs], None)"
    by (rule build_datasets_ok)
  then show ?thesis
    using assms(1)
    by (simp add: MultipleEnvironmentSine_init_def load_cache_def normalised_def)
qed

subsection \<open>Column statistics\<close>









lemma rows_at_normalised:
  assumes "\<And>i. i \<in> set ixs \<Longrightarrow> i < length a"
  shows "rows_at (bdiv rnd (bsub rnd a m) s) ixs = map (\<lambda>i. normalise_row rnd m s (a ! i)) ixs"
  using assms by (simp add: rows_at_def bdiv_def bsub_def normalise_row_def)



subsection \<open>The example pickles\<close>

lemma ex_global:
  "mean0 exact (data example_pickle) = [Fin 3]" "std0 exact (data example_pickle) = [Fin 2]"
  "normalised exact (data example_pickle) = [[Fin (3/2)], [Fin (-3/2)], [Fin (1/2)], [Fin (-1/2)], [Fin 0]]"
  by (simp_all add: example_pickle_def normalised_def mean0_def std0_def sum0_def ncols_def bsub_def bdiv_def square_def np_sub_def exact_def)

lemma ex_samples:
  "samples_of_domain (domain example_pickle) 0 = [0, 1]"
  "samples_of_domain (domain example_pickle) 1 = [2, 3, 4]"
  by (simp_all add: example_pickle_def samples_of_domain_def upt_rec)

lemma ex_local:
  "per_domain_normalised exact example_pickle 0 = [[Fin 1], [Fin (-1)]]"
  by (simp add: per_domain_normalised_def ex_samples rows_at_def)
     (simp add: example_pickle_def normalised_def mean0_def std0_def sum0_def ncols_def bsub_def bdiv_def square_def np_sub_def exact_def)



subsection \<open>Counting the samples of the domains\<close>

lemma length_samples_of_domain:
  "length (samples_of_domain doms d) = length (filter (\<lambda>v. v = int d) doms)"
proof -
  have "length (filter (\<lambda>v. v = int d) (map (\<lambda>i. doms ! i) [0..<length doms]))
        = length (samples_of_domain doms d)"
    unfolding filter_map samples_of_domain_def by (simp add: comp_def)
  then show ?thesis by (simp add: map_nth)
qed

lemma filter_range_Suc:
  "length (filter (\<lambda>v. 0 \<le> v \<and> v < int k) xs) + length (filter (\<lambda>v. v = int k) xs)
   = length (filter (\<lambda>v. 0 \<le> v \<and> v < int (Suc k)) xs)"
  by (induction xs) auto

lemma sum_samples_of_domain:
  "sum_list (map (\<lambda>d. length (samples_of_domain doms d)) [0..<k])
   = length (filter (\<lambda>v. 0 \<le> v \<and> v < int k) doms)"
proof (induction k)
  case 0
  then show ?case by simp
next
  case (Suc k)
  then show ?case
    using filter_range_Suc [of k doms] by (simp add: length_samples_of_domain)
qed

lemma samples_of_absent_domain:
  "int d \<notin> set doms \<Longrightarrow> samples_of_domain doms d = []"
  unfolding samples_of_domain_def filter_empty_conv by (metis atLeastLessThan_iff nth_mem set_upt)

subsection \<open>Normalisation statistics\<close>

text \<open>
  Claim C1, as stated: the mean and the standard deviation that normalise the data of a
  domain are computed over the samples of that domain. The loader does not do this. In
  the example pickle the samples 6 and 0 of domain 0 have mean 3 and standard deviation 3
  among themselves and would become 1 and -1; the loader normalises them with the mean 3
  and the standard deviation 2 of all five samples, to 3/2 and -3/2.
\<close>

theorem per_domain_statistics_counterexample:
  "map_option (map tensors_x)
     (datasets (fst (MultipleEnvironmentSine_init example_fs exact id (Some ''sine.pkl'') [0::nat, 1]
                       process_dataset [1] 2)))
   \<noteq> Some [per_domain_normalised exact example_pickle 0, per_domain_normalised exact example_pickle 1]"
proof -
  have fs: "example_fs ''sine.pkl'' = Cached example_pickle" by (simp add: example_fs_def)
  have l: "length (label example_pickle) = length (data example_pickle)"
      "length (domain example_pickle) = length (data example_pickle)"
    by (simp_all add: example_pickle_def)
  show ?thesis
    unfolding init_ok [of example_fs "''sine.pkl''" example_pickle, OF fs l]
    by (simp add: ex_samples ex_global ex_local rows_at_def process_dataset_def astype_float32_def)
qed

text \<open>
  Claim C1, amended: the mean and the standard deviation are computed once, over all
  samples of the pickle, before the partition; the data of the \<open>d\<close>-th dataset are the
  rows of the samples of domain \<open>d\<close>, each normalised with these global statistics
  \<open>mean0 (data p)\<close> and \<open>std0 (data p)\<close> and cast to float32.
\<close>

theorem normalisation_uses_global_statistics:
  assumes "fs path = Cached p"
    and "length (label p) = length (data p)" and "length (domain p) = length (data p)"
  shows "\<exists>self ds.
     MultipleEnvironmentSine_init fs rnd f32 (Some path) envs tr shp ncls = (self, None) \<and>
     datasets self = Some ds \<and> length ds = length envs \<and>
     (\<forall>d<length envs.
        ds ! d = tr (astype_float32 f32
                      (map (\<lambda>i. normalise_row rnd (mean0 rnd (data p)) (std0 rnd (data p)) (data p ! i))
                           (samples_of_domain (domain p) d)))
                    (astype_int64 (rows_at (label p) (samples_of_domain (domain p) d))))"
proof -
  have "\<And>d. rows_at (normalised rnd (data p)) (samples_of_domain (domain p) d)
        = map (\<lambda>i. normalise_row rnd (mean0 rnd (data p)) (std0 rnd (data p)) (data p ! i))
              (samples_of_domain (domain p) d)"
    unfolding normalised_def
    by (rule rows_at_normalised) (use assms(3) samples_of_domain_bound in fastforce)
  then show ?thesis
    unfolding init_ok [of fs path p, OF assms]
    by (simp del: upt_Suc)
qed

theorem normalisation_uses_global_statistics_witness:
  "\<exists>self ds.
     MultipleEnvironmentSine_init example_fs exact id (Some ''sine.pkl'') [0::nat, 1]
       process_dataset [1] 2 = (self, None) \<and>
     datasets self = Some ds \<and> length ds = length [0::nat, 1] \<and>
     (\<forall>d<length [0::nat, 1].
        ds ! d = process_dataset (astype_float32 id
                      (map (\<lambda>i. normalise_row exact (mean0 exact (data example_pickle))
                                  (std0 exact (data example_pickle)) (data example_pickle ! i))
                           (samples_of_domain (domain example_pickle) d)))
                    (astype_int64 (rows_at (label example_pickle)
                         (samples_of_domain (domain example_pickle) d))))"
  by (rule normalisation_uses_global_statistics) (simp_all add: example_fs_def example_pickle_def)

subsection \<open>Partition by domain\<close>

text \<open>
  Claim C2: for a cached pickle and every domain index \<open>d\<close> below the number of
  environments, the \<open>d\<close>-th dataset is built from exactly the normalised samples whose
  \<open>'domain'\<close> entry equals \<open>d\<close>, in their original order, with the data cast to
  float32 and the labels cast to int64. The pickle is a table: its three arrays have the
  same length.
\<close>

theorem datasets_partition_by_domain:
  assumes "fs path = Cached p"
    and "length (label p) = length (data p)" and "length (domain p) = length (data p)"
  shows "\<exists>self ds.
     MultipleEnvironmentSine_init fs rnd f32 (Some path) envs tr shp ncls = (self, None) \<and>
     datasets self = Some ds \<and> length ds = length envs \<and>
     (\<forall>d<length envs.
        ds ! d = tr (astype_float32 f32
                      (rows_at (normalised rnd (data p)) (samples_of_domain (domain p) d)))
                    (astype_int64 (rows_at (label p) (samples_of_domain (domain p) d))))"
  unfolding init_ok [of fs path p, OF assms]
  by (simp del: upt_Suc)

theorem datasets_partition_by_domain_witness:
  "\<exists>self ds.
     MultipleEnvironmentSine_init example_fs exact id (Some ''sine.pkl'') [0::nat, 1]
       process_dataset [1] 2 = (self, None) \<and>
     datasets self = Some ds \<and> length ds = length [0::nat, 1] \<and>
     (\<forall>d<length [0::nat, 1].
        ds ! d = process_dataset (astype_float32 id
                      (rows_at (normalised exact (data example_pickle))
                         (samples_of_domain (domain example_pickle) d)))
                    (astype_int64 (rows_at (label example_pickle)
                         (samples_of_domain (domain example_pickle) d))))"
  by (rule datasets_partition_by_domain) (simp_all add: example_fs_def example_pickle_def)

subsection \<open>Errors\<close>

text \<open>
  Claim C7: the constructor raises ValueError when the root is \<open>None\<close>, and
  \<open>_load_cache\<close> raises NotImplementedError when the cache file does not exist; in both
  cases the attribute \<open>datasets\<close> is never assigned.
\<close>

theorem loader_errors_construct_nothing:
  "snd (MultipleEnvironmentSine_init fs rnd f32 None envs tr shp ncls) = Some ValueError \<and>
   datasets (fst (MultipleEnvironmentSine_init fs rnd f32 None envs tr shp ncls)) = None \<and>
   (fs path = Missing \<longrightarrow>
      load_cache fs path = Inl NotImplementedError \<and>
      snd (MultipleEnvironmentSine_init fs rnd f32 (Some path) envs tr shp ncls)
        = Some NotImplementedError \<and>
      datasets (fst (MultipleEnvironmentSine_init fs rnd f32 (Some path) envs tr shp ncls)) = None)"
  by (simp add: MultipleEnvironmentSine_init_def load_cache_def)

theorem loader_errors_construct_nothing_witness:
  "example_fs ''absent.pkl'' = Missing \<and>
   snd (MultipleEnvironmentSine_init example_fs exact id None [0::nat, 1] process_dataset [1] 2)
     = Some ValueError \<and>
   datasets (fst (MultipleEnvironmentSine_init example_fs exact id None [0::nat, 1]
                    process_dataset [1] 2)) = None \<and>
   load_cache example_fs ''absent.pkl'' = Inl NotImplementedError \<and>
   snd (MultipleEnvironmentSine_init example_fs exact id (Some ''absent.pkl'') [0::nat, 1]
          process_dataset [1] 2) = Some NotImplementedError \<and>
   datasets (fst (MultipleEnvironmentSine_init example_fs exact id (Some ''absent.pkl'') [0::nat, 1]
                    process_dataset [1] 2)) = None"
  using loader_errors_construct_nothing
    [of example_fs exact id "[0::nat, 1]" process_dataset "[1]" 2 "''absent.pkl''"]
  by (simp add: example_fs_def)

subsection \<open>ToySine\<close>

text \<open>
  Claim C9: ToySine builds exactly 24 datasets whatever the domains of the samples are. A
  domain index that no sample has yields an empty dataset at its position, and the
  datasets together hold as many samples as the pickle has with a domain from 0 to 23:
  the others are dropped.
\<close>

theorem toysine_builds_24_datasets:
  assumes "fs path = Cached p"
    and "length (label p) = length (data p)" and "length (domain p) = length (data p)"
  shows "\<exists>self ds.
     ToySine_init fs rnd f32 (Some path) shp ncls = (self, None) \<and>
     datasets self = Some ds \<and> length ds = 24 \<and>
     (\<forall>d<24. int d \<notin> set (domain p) \<longrightarrow> ds ! d = \<lparr>tensors_x = [], tensors_y = []\<rparr>) \<and>
     sum_list (map (\<lambda>t. length (tensors_x t)) ds)
       = length (filter (\<lambda>v. 0 \<le> v \<and> v < 24) (domain p))"
proof -
  let ?ds = "map (\<lambda>d. process_dataset
          (astype_float32 f32 (rows_at (normalised rnd (data p)) (samples_of_domain (domain p) d)))
          (astype_int64 (rows_at (label p) (samples_of_domain (domain p) d))))
          [0..<24]"
  have i: "ToySine_init fs rnd f32 (Some path) shp ncls =
     (\<lparr>Environments = [0..<24], input_shape = shp, num_classes = ncls, normalize = True,
       data_pkl = Some (p\<lparr>data := normalised rnd (data p)\<rparr>),
       datasets = Some ?ds\<rparr>, None)"
    unfolding ToySine_init_def Let_def init_ok [of fs path p, OF assms] by simp
  have l: "length ?ds = 24" by simp
  have e: "\<forall>d<24. int d \<notin> set (domain p) \<longrightarrow> ?ds ! d = \<lparr>tensors_x = [], tensors_y = []\<rparr>"
    by (simp add: samples_of_absent_domain rows_at_def astype_float32_def astype_int64_def
          process_dataset_def del: upt_Suc)
  have m: "map (\<lambda>t. length (tensors_x t)) ?ds
        = map (\<lambda>d. length (samples_of_domain (domain p) d)) [0..<24]"
    by (simp add: process_dataset_def astype_float32_def rows_at_def comp_def del: upt_Suc)
  have s: "sum_list (map (\<lambda>t. length (tensors_x t)) ?ds)
       = length (filter (\<lambda>v. 0 \<le> v \<and> v < 24) (domain p))"
    unfolding m using sum_samples_of_domain [of "domain p" 24] by simp
  from i l e s show ?thesis by simp
qed

theorem toysine_builds_24_datasets_witness:
  "\<exists>self ds.
     ToySine_init constant_fs exact id (Some ''const.pkl'') [2] 2 = (self, None) \<and>
     datasets self = Some ds \<and> length ds = 24 \<and>
     (\<forall>d<24. int d \<notin> set (domain constant_pickle)
        \<longrightarrow> ds ! d = \<lparr>tensors_x = [], tensors_y = []\<rparr>) \<and>
     sum_list (map (\<lambda>t. length (tensors_x t)) ds)
       = length (filter (\<lambda>v. 0 \<le> v \<and> v < 24) (domain constant_pickle))"
  by (rule toysine_builds_24_datasets) (simp_all add: constant_fs_def constant_pickle_def)

subsection \<open>Division by a zero standard deviation\<close>



section \<open>Properties of the feature extractors\<close>

subsection \<open>LinearFeatExtractor\<close>

lemma run_stages_append:
  "run_stages smp (ss @ ts) x g =
     (case run_stages smp ss x g of Inl e \<Rightarrow> Inl e | Inr (y, g') \<Rightarrow> run_stages smp ts y g')"
  by (induction ss arbitrary: x g) (auto split: sum.splits)

lemma hidden_loop_stages:
  "hidden_loop smp d hs x g = run_stages smp (concat (map (\<lambda>h. [Lin h, Drop d, Relu]) hs)) x g"
  by (induction hs arbitrary: x g) (auto split: sum.splits prod.splits)

lemma forward_deep:
  assumes "num_layers self > 1" "dropout self = Some d" "hiddens self = Some hs"
    "output self = Some out"
  shows "LinearFeatExtractor_forward smp self x g
         = run_stages smp (mlp_stages (input self) d hs out) x g"
  using assms
  by (auto simp: LinearFeatExtractor_forward_def mlp_stages_def run_stages_append
        hidden_loop_stages split: sum.splits prod.splits)

lemma init_attrs:
  assumes "LinearFeatExtractor_init w0 b0 shp od hp = Inr self0"
  shows "num_layers self0 = mlp_depth hp \<and> n_outputs self0 = od \<and>
         (mlp_depth hp > 1 \<longrightarrow>
            (\<exists>hs out. dropout self0 = Some \<lparr>drop_p = mlp_dropout hp, drop_training = True\<rparr> \<and>
               hiddens self0 = Some hs \<and>
               output self0 = Some out \<and> int (length hs) = mlp_depth hp - 2))"
  using assms
  by (auto simp: LinearFeatExtractor_init_def Let_def Dropout_def split: if_splits)

lemma example_deep_init:
  "LinearFeatExtractor_init example_w0 example_b0 [2] 2 (example_hparams 3) = Inr example_deep"
  by (simp add: LinearFeatExtractor_init_def example_hparams_def Linear_def example_w0_def
        example_b0_def Dropout_def example_deep_def example_linear_def upt_rec)

lemma example_linear_forward:
  "linear_forward example_linear [[a, b]] = Inr [[a - 1, b - 1]]"
  by (simp add: linear_forward_def example_linear_def dot_def)

lemma example_deep_forward:
  "LinearFeatExtractor_forward example_smp example_deep [[3, 0]] (0::nat) = Inr ([[5, - 1]], 2)"
  by (simp add: LinearFeatExtractor_forward_def example_deep_def example_linear_forward
        dropout_forward_def example_smp_def relu_def)

lemma example_shallow_forward:
  "LinearFeatExtractor_forward example_smp example_shallow [[3, 0]] (0::nat) = Inr ([[2, - 1]], 0)"
  by (simp add: LinearFeatExtractor_forward_def example_shallow_def example_linear_forward)

text \<open>
  Claim C3: the forward pass depends on the depth. With a depth of at most one the output
  is the input linear layer applied to \<open>x\<close>. With a larger depth it is the input layer,
  then dropout and ReLU, then every hidden layer followed by dropout and ReLU, then the
  output layer; and the constructor creates \<open>mlp_depth - 2\<close> hidden layers.
\<close>

theorem forward_conditional_on_depth:
  "(num_layers s1 \<le> 1 \<longrightarrow>
      LinearFeatExtractor_forward smp s1 x g
        = map_sum id (\<lambda>y. (y, g)) (linear_forward (input s1) x)) \<and>
   (num_layers s2 > 1 \<longrightarrow> dropout s2 = Some d \<longrightarrow> hiddens s2 = Some hs \<longrightarrow>
    output s2 = Some out \<longrightarrow>
      LinearFeatExtractor_forward smp s2 x g
        = run_stages smp (mlp_stages (input s2) d hs out) x g) \<and>
   (LinearFeatExtractor_init w0 b0 shp od hp = Inr s0 \<longrightarrow>
      num_layers s0 = mlp_depth hp \<and>
      (mlp_depth hp > 1 \<longrightarrow>
         (\<exists>hs0 out0. dropout s0 = Some \<lparr>drop_p = mlp_dropout hp, drop_training = True\<rparr> \<and>
            hiddens s0 = Some hs0 \<and> output s0 = Some out0 \<and>
            int (length hs0) = mlp_depth hp - 2)))"
proof (intro conjI impI)
  assume "num_layers s1 \<le> 1"
  then show "LinearFeatExtractor_forward smp s1 x g
        = map_sum id (\<lambda>y. (y, g)) (linear_forward (input s1) x)"
    by (auto simp: LinearFeatExtractor_forward_def split: sum.splits)
next
  assume "1 < num_layers s2" "dropout s2 = Some d" "hiddens s2 = Some hs"
    "output s2 = Some out"
  then show "LinearFeatExtractor_forward smp s2 x g
        = run_stages smp (mlp_stages (input s2) d hs out) x g"
    by (rule forward_deep)
next
  assume "LinearFeatExtractor_init w0 b0 shp od hp = Inr s0"
  then show "num_layers s0 = mlp_depth hp" using init_attrs by blast
next
  assume "LinearFeatExtractor_init w0 b0 shp od hp = Inr s0" "1 < mlp_depth hp"
  then show "\<exists>hs0 out0. dropout s0 = Some \<lparr>drop_p = mlp_dropout hp, drop_training = True\<rparr> \<and>
            hiddens s0 = Some hs0 \<and> output s0 = Some out0 \<and>
            int (length hs0) = mlp_depth hp - 2"
    using init_attrs by blast
qed

theorem forward_conditional_on_depth_witness:
  "num_layers example_shallow \<le> 1 \<and>
   LinearFeatExtractor_forward example_smp example_shallow [[3, 0]] (0::nat)
     = map_sum id (\<lambda>y. (y, 0)) (linear_forward (input example_shallow) [[3, 0]]) \<and>
   num_layers example_deep > 1 \<and>
   LinearFeatExtractor_forward example_smp example_deep [[3, 0]] (0::nat)
     = run_stages example_smp
         (mlp_stages (input example_deep) \<lparr>drop_p = 1/2, drop_training = True\<rparr>
            [example_linear] example_linear) [[3, 0]] 0 \<and>
   LinearFeatExtractor_init example_w0 example_b0 [2] 2 (example_hparams 3) = Inr example_deep \<and>
   num_layers example_deep = mlp_depth (example_hparams 3) \<and>
   mlp_depth (example_hparams 3) > 1 \<and>
   (\<exists>hs0 out0. dropout example_deep
                  = Some \<lparr>drop_p = mlp_dropout (example_hparams 3), drop_training = True\<rparr> \<and>
      hiddens example_deep = Some hs0 \<and> output example_deep = Some out0 \<and>
      int (length hs0) = mlp_depth (example_hparams 3) - 2)"
proof -
  have a: "num_layers example_shallow \<le> 1" by (simp add: example_shallow_def)
  have b: "num_layers example_deep > 1"
    "dropout example_deep = Some \<lparr>drop_p = 1/2, drop_training = True\<rparr>"
    "hiddens example_deep = Some [example_linear]" "output example_deep = Some example_linear"
    by (simp_all add: example_deep_def)
  have c: "mlp_depth (example_hparams 3) > 1" by (simp add: example_hparams_def)
  show ?thesis
    using forward_conditional_on_depth [where ?s1.0 = example_shallow and smp = example_smp
        and x = "[[3, 0]]" and g = "0::nat" and ?s2.0 = example_deep
        and d = "\<lparr>drop_p = 1/2, drop_training = True\<rparr>" and hs = "[example_linear]"
        and out = example_linear and ?w0.0 = example_w0 and ?b0.0 = example_b0
        and shp = "[2]" and od = 2 and hp = "example_hparams 3" and ?s0.0 = example_deep]
      a b c example_deep_init
    by simp
qed

text \<open>
  With a depth above one the rows that \<open>forward\<close> returns have \<open>n_outputs\<close> entries.
\<close>

lemma linear_forward_width:
  "linear_forward (Linear w b n_in n_out) x = Inr y \<Longrightarrow> list_all (\<lambda>r. length r = n_out) y"
  by (auto simp: linear_forward_def Linear_def list_all_iff split: if_splits)

lemma deep_output_width:
  assumes "LinearFeatExtractor_init w0 b0 shp od hp = Inr self"
    and "mlp_depth hp > 1"
    and "LinearFeatExtractor_forward smp self x g = Inr (y, g')"
  shows "list_all (\<lambda>r. length r = n_outputs self) y"
proof -
  obtain out where o: "output self = Some out"
      "out = Linear (w0 (Suc (nat (mlp_depth hp - 2)))) (b0 (Suc (nat (mlp_depth hp - 2))))
               (mlp_width hp) od"
      and n: "n_outputs self = od" "num_layers self > 1"
    using assms(1,2)
    by (auto simp: LinearFeatExtractor_init_def Let_def split: if_splits sum.splits)
  obtain x4 where "linear_forward out x4 = Inr y"
    using assms(3) o(1) n(2)
    by (auto simp: LinearFeatExtractor_forward_def split: sum.splits option.splits prod.splits)
  then show ?thesis using o(2) n(1) linear_forward_width by blast
qed

text \<open>
  Claim C5 says that the last dimension of the output of \<open>forward\<close> equals
  \<open>n_outputs\<close>. For a LinearFeatExtractor of depth 1, width 5 and output dimension 3 the
  attribute \<open>n_outputs\<close> is 3, but \<open>forward\<close> stops after the input layer and returns
  rows of 5 entries.
\<close>

theorem n_outputs_mismatch_at_depth_one:
  "\<exists>self y.
     LinearFeatExtractor_init w0 b0 [2] 3 \<lparr>mlp_depth = 1, mlp_width = 5, mlp_dropout = 1/2\<rparr>
       = Inr self \<and>
     n_outputs self = 3 \<and>
     LinearFeatExtractor_forward smp self [[1, 2]] g = Inr (y, g) \<and>
     map length y = [5]"
  by (simp add: LinearFeatExtractor_init_def LinearFeatExtractor_forward_def Linear_def
        linear_forward_def)

subsection \<open>Identity\<close>

text \<open>
  Claim C6: \<open>Identity.forward\<close> returns its input unchanged, and \<open>n_outputs\<close> is the
  last entry of the input shape.
\<close>

theorem identity_is_identity:
  "Identity_forward self x = x \<and>
   (shp \<noteq> [] \<longrightarrow> (\<exists>self0. Identity_init shp od hp = Inr self0 \<and> n_outputs self0 = last shp))"
  by (simp add: Identity_forward_def Identity_init_def)

theorem identity_is_identity_witness:
  "Identity_forward \<lparr>n_outputs = 7\<rparr> [[1, 2::real]] = [[1, 2]] \<and>
   [4, 7::nat] \<noteq> [] \<and>
   (\<exists>self0. Identity_init [4, 7] (3::nat) () = Inr self0 \<and> n_outputs self0 = last [4, 7])"
  using identity_is_identity [of "\<lparr>n_outputs = 7\<rparr>" "[[1, 2::real]]" "[4, 7]" "3::nat" "()"]
  by simp

subsection \<open>ResNet: the weights of the adapted convolution\<close>

lemma set_channel_ok:
  assumes "list_all (\<lambda>row. i < length row) w" "length s = length w"
  shows "set_channel w i s = Inr (map2 (\<lambda>row k. row[i := k]) w s)"
  using assms by (simp add: set_channel_def)

lemma adapt_channels_ok:
  assumes "list_all (\<lambda>row. length row = 3) tmp"
    and "length tmp = length w"
    and "list_all (\<lambda>row. length row = nc) w"
    and "list_all (\<lambda>i. i < nc) ixs"
  shows "\<exists>w'. adapt_channels tmp ixs w = Inr w' \<and> length w' = length w \<and>
           (\<forall>j<length w. length (w' ! j) = nc \<and>
              (\<forall>i<nc. w' ! j ! i = (if i \<in> set ixs then tmp ! j ! (i mod 3) else w ! j ! i)))"
  using assms
proof (induction ixs arbitrary: w)
  case Nil
  then show ?case by (simp add: list_all_length)
next
  case (Cons i rest)
  let ?s = "map (\<lambda>row. row ! (i mod 3)) tmp"
  let ?w1 = "map2 (\<lambda>row k. row[i := k]) w ?s"
  have g: "get_channel tmp (i mod 3) = Inr ?s"
    using Cons.prems(1) by (simp add: get_channel_def list_all_iff)
  have i: "i < nc" using Cons.prems(4) by simp
  have s: "set_channel w i ?s = Inr ?w1"
    using Cons.prems(2,3) i by (intro set_channel_ok) (simp_all add: list_all_iff)
  have l1: "length ?w1 = length w" using Cons.prems(2) by simp
  have r1: "list_all (\<lambda>row. length row = nc) ?w1"
    using Cons.prems(2,3) by (simp add: list_all_length)
  have "length tmp = length ?w1" using Cons.prems(2) by simp
  moreover have "list_all (\<lambda>i. i < nc) rest" using Cons.prems(4) by simp
  ultimately obtain w' where w': "adapt_channels tmp rest ?w1 = Inr w'"
    "length w' = length ?w1"
    "\<forall>j<length ?w1. length (w' ! j) = nc \<and>
       (\<forall>k<nc. w' ! j ! k = (if k \<in> set rest then tmp ! j ! (k mod 3) else ?w1 ! j ! k))"
    using Cons.IH [OF Cons.prems(1) _ r1] by blast
  have v: "\<And>j k. j < length w \<Longrightarrow> k < nc \<Longrightarrow>
            ?w1 ! j ! k = (if k = i then tmp ! j ! (i mod 3) else w ! j ! k)"
    using Cons.prems(2,3) i by (simp add: list_all_length)
  have "adapt_channels tmp (i # rest) w = Inr w'" using g s w'(1) by simp
  moreover have "length w' = length w" using w'(2) l1 by simp
  moreover have "\<forall>j<length w. length (w' ! j) = nc \<and>
       (\<forall>k<nc. w' ! j ! k = (if k \<in> set (i # rest) then tmp ! j ! (k mod 3) else w ! j ! k))"
    using w'(3) l1 v by auto
  ultimately show ?case by blast
qed

lemma mname_Module_train [simp]: "mname (Module_train mode m) = mname m"
  by (cases m) simp

lemma mlayer_Module_train [simp]: "mlayer (Module_train mode m) = mlayer m"
  by (cases m) simp

lemma mname_freeze_bn [simp]: "mname (freeze_bn m) = mname m"
  by (cases m) simp

lemma mlayer_freeze_bn [simp]: "mlayer (freeze_bn m) = mlayer m"
  by (cases m) simp

lemma find_map_name:
  "(\<And>c. mname (f c) = mname c) \<Longrightarrow>
   find (\<lambda>c. mname c = nm) (map f cs) = map_option f (find (\<lambda>c. mname c = nm) cs)"
  by (induction cs) simp_all

lemma children_freeze_bn:
  "\<exists>f. (\<forall>c. mname (f c) = mname c \<and> mlayer (f c) = mlayer c) \<and>
       children (freeze_bn m) = map f (children m)"
proof (cases m)
  case (Module n l t cs)
  show ?thesis
  proof (cases "is_BatchNorm2d l")
    case True
    then have "children (freeze_bn m) = map (Module_train False) (children m)"
      using Module by simp
    then show ?thesis by (intro exI [of _ "Module_train False"]) simp
  next
    case False
    then have "children (freeze_bn m) = map freeze_bn (children m)"
      using Module by simp
    then show ?thesis by (intro exI [of _ freeze_bn]) simp
  qed
qed

lemma conv1_of_freeze_bn: "conv1_of (freeze_bn m) = conv1_of m"
proof -
  obtain f where f: "\<And>c. mname (f c) = mname c" "\<And>c. mlayer (f c) = mlayer c"
    "children (freeze_bn m) = map f (children m)"
    using children_freeze_bn [of m] by blast
  show ?thesis
    by (simp add: conv1_of_def get_child_def f find_map_name split: option.splits)
qed

lemma find_assign_other:
  "nm \<noteq> nm' \<Longrightarrow> mname c = nm' \<Longrightarrow>
   find (\<lambda>c. mname c = nm) (assign nm' c cs) = find (\<lambda>c. mname c = nm) cs"
  by (induction cs) auto

lemma find_assign_same:
  "mname c = nm \<Longrightarrow> find (\<lambda>c. mname c = nm) (assign nm c cs) = Some c"
  by (induction cs) auto

lemma find_filter_other:
  "nm \<noteq> nm' \<Longrightarrow>
   find (\<lambda>c. mname c = nm) (filter (\<lambda>c. mname c \<noteq> nm') cs) = find (\<lambda>c. mname c = nm) cs"
  by (induction cs) auto

lemma conv1_of_set_fc: "conv1_of (set_child ''fc'' l m) = conv1_of m"
  by (simp add: conv1_of_def get_child_def set_child_def find_assign_other)

lemma conv1_of_set_conv1: "conv1_of (set_child ''conv1'' (Conv2d cv) m) = Some cv"
  by (simp add: conv1_of_def get_child_def set_child_def find_assign_same)

lemma conv1_of_del_fc: "del_child ''fc'' m = Inr m' \<Longrightarrow> conv1_of m' = conv1_of m"
  by (auto simp: conv1_of_def get_child_def del_child_def find_filter_other split: option.splits)

lemma fc_set_conv1:
  "get_child ''fc'' m = Inr c \<Longrightarrow> \<exists>m'. del_child ''fc'' (set_child ''conv1'' l m) = Inr m'"
  by (auto simp: get_child_def del_child_def set_child_def find_assign_other split: option.splits)

lemma fc_del: "get_child ''fc'' m = Inr c \<Longrightarrow> \<exists>m'. del_child ''fc'' m = Inr m'"
  by (auto simp: get_child_def del_child_def split: option.splits)

lemma init_three:
  assumes "net0 = (if arch = ''resnet18'' then tv18 pretrained else tv50 pretrained)"
    and "is_torchvision_resnet net0" and "0 \<le> rate" and "rate \<le> 1"
  shows "\<exists>self. ResNet_init tv18 tv50 init arch (3 # rest) pretrained rate = Inr self \<and>
           conv1_of (network self) = conv1_of net0"
proof -
  obtain c where "get_child ''fc'' net0 = Inr c"
    using assms(2) by (auto simp: is_torchvision_resnet_def split: sum.splits)
  then obtain net2 where d: "del_child ''fc'' net0 = Inr net2"
    using fc_del by blast
  have "conv1_of (freeze_bn (set_child ''fc'' nn_Identity net2)) = conv1_of net0"
    using conv1_of_del_fc [OF d] by (simp add: conv1_of_freeze_bn conv1_of_set_fc)
  then show ?thesis
    using d assms(1,3,4) by (auto simp: ResNet_init_def Dropout_def)
qed

lemma init_adapt:
  assumes "net0 = (if arch = ''resnet18'' then tv18 pretrained else tv50 pretrained)"
    and "is_torchvision_resnet net0" and "conv1_of net0 = Some old" and "nc \<noteq> 3"
    and "0 \<le> rate" and "rate \<le> 1"
  shows "\<exists>self cv. ResNet_init tv18 tv50 init arch (nc # rest) pretrained rate = Inr self \<and>
           conv1_of (network self) = Some cv \<and>
           in_channels cv = nc \<and> out_channels cv = 64 \<and> kernel_size cv = (7, 7) \<and>
           stride cv = (2, 2) \<and> padding cv = (3, 3) \<and> conv_bias cv = None \<and>
           length (conv_weight cv) = 64 \<and>
           (\<forall>j<64. length (conv_weight cv ! j) = nc \<and>
              (\<forall>i<nc. conv_weight cv ! j ! i = conv_weight old ! j ! (i mod 3)))"
proof -
  let ?new = "Conv2d_no_bias init nc 64 (7, 7) (2, 2) (3, 3)"
  obtain c where c: "get_child ''conv1'' net0 = Inr c" "mlayer c = Conv2d old"
    using assms(3) by (auto simp: conv1_of_def split: sum.splits layer.splits)
  have o: "length (conv_weight old) = 64" "list_all (\<lambda>row. length row = 3) (conv_weight old)"
    using assms(2,3) by (simp_all add: is_torchvision_resnet_def)
  have n: "length (conv_weight ?new) = 64" "list_all (\<lambda>row. length row = nc) (conv_weight ?new)"
    by (simp_all add: Conv2d_no_bias_def list_all_iff)
  have "list_all (\<lambda>i. i < nc) [0..<nc]" by (simp add: list_all_iff)
  then obtain w where w: "adapt_channels (conv_weight old) [0..<nc] (conv_weight ?new) = Inr w"
    "length w = 64"
    "\<forall>j<64. length (w ! j) = nc \<and> (\<forall>i<nc. w ! j ! i = conv_weight old ! j ! (i mod 3))"
    using adapt_channels_ok [OF o(2) _ n(2), of "[0..<nc]"] o(1) n(1) by auto
  let ?cv = "?new\<lparr>conv_weight := w\<rparr>"
  let ?net1 = "set_child ''conv1'' (Conv2d ?cv) net0"
  obtain f where "get_child ''fc'' net0 = Inr f"
    using assms(2) by (auto simp: is_torchvision_resnet_def split: sum.splits)
  then obtain net2 where d: "del_child ''fc'' ?net1 = Inr net2"
    using fc_set_conv1 by blast
  have cv: "conv1_of (freeze_bn (set_child ''fc'' nn_Identity net2)) = Some ?cv"
    using conv1_of_del_fc [OF d]
    by (simp add: conv1_of_freeze_bn conv1_of_set_fc conv1_of_set_conv1)
  have "ResNet_init tv18 tv50 init arch (nc # rest) pretrained rate
        = Inr \<lparr>n_outputs = (if arch = ''resnet18'' then 512 else 2048),
               network = freeze_bn (set_child ''fc'' nn_Identity net2),
               resnet_dropout = \<lparr>drop_p = rate, drop_training = True\<rparr>,
               resnet_training = True\<rparr>"
    using assms(1,4,5,6) c w(1) d by (auto simp: ResNet_init_def Dropout_def)
  moreover have "in_channels ?cv = nc \<and> out_channels ?cv = 64 \<and> kernel_size ?cv = (7, 7) \<and>
           stride ?cv = (2, 2) \<and> padding ?cv = (3, 3) \<and> conv_bias ?cv = None"
    by (simp add: Conv2d_no_bias_def)
  ultimately show ?thesis using cv w(2,3) by simp
qed

lemma ex_conv1: "conv1_of example_net = Some example_conv1"
  by (simp add: conv1_of_def get_child_def example_net_def)

lemma ex_tv: "is_torchvision_resnet example_net"
  by (simp add: is_torchvision_resnet_def ex_conv1)
     (simp add: example_conv1_def get_child_def example_net_def list_all_iff)

text \<open>
  Claim C4: when the number \<open>nc\<close> of input channels is not 3, the constructor replaces
  \<open>conv1\<close> by a convolution without bias, with kernel size 7, stride 2 and padding 3,
  that takes \<open>nc\<close> input channels, and the weights of its input channel \<open>i\<close> are those
  of channel \<open>i mod 3\<close> of the convolution that torchvision delivered; when the number
  of input channels is 3, \<open>conv1\<close> is left as it was.
\<close>

theorem conv1_channel_adaptation:
  assumes "net0 = (if arch = ''resnet18'' then tv18 pretrained else tv50 pretrained)"
    and "is_torchvision_resnet net0" and "conv1_of net0 = Some old"
    and "0 \<le> rate" and "rate \<le> 1"
  shows "(nc \<noteq> 3 \<longrightarrow>
           (\<exists>self cv. ResNet_init tv18 tv50 init arch (nc # rest) pretrained rate = Inr self \<and>
              conv1_of (network self) = Some cv \<and>
              in_channels cv = nc \<and> out_channels cv = 64 \<and> kernel_size cv = (7, 7) \<and>
              stride cv = (2, 2) \<and> padding cv = (3, 3) \<and> conv_bias cv = None \<and>
              length (conv_weight cv) = 64 \<and>
              (\<forall>j<64. length (conv_weight cv ! j) = nc \<and>
                 (\<forall>i<nc. conv_weight cv ! j ! i = conv_weight old ! j ! (i mod 3))))) \<and>
         (\<exists>self. ResNet_init tv18 tv50 init arch (3 # rest3) pretrained rate = Inr self \<and>
            conv1_of (network self) = Some old)"
proof (intro conjI impI)
  assume n: "nc \<noteq> 3"
  show "\<exists>self cv. ResNet_init tv18 tv50 init arch (nc # rest) pretrained rate = Inr self \<and>
              conv1_of (network self) = Some cv \<and>
              in_channels cv = nc \<and> out_channels cv = 64 \<and> kernel_size cv = (7, 7) \<and>
              stride cv = (2, 2) \<and> padding cv = (3, 3) \<and> conv_bias cv = None \<and>
              length (conv_weight cv) = 64 \<and>
              (\<forall>j<64. length (conv_weight cv ! j) = nc \<and>
                 (\<forall>i<nc. conv_weight cv ! j ! i = conv_weight old ! j ! (i mod 3)))"
    by (rule init_adapt [where ?tv18.0 = tv18 and ?tv50.0 = tv50 and pretrained = pretrained,
          OF assms(1-3) n assms(4,5)])
next
  show "\<exists>self. ResNet_init tv18 tv50 init arch (3 # rest3) pretrained rate = Inr self \<and>
            conv1_of (network self) = Some old"
    using init_three [where ?tv18.0 = tv18 and ?tv50.0 = tv50 and pretrained = pretrained,
        OF assms(1,2,4,5)] assms(3) by simp
qed

theorem conv1_channel_adaptation_witness:
  "(1::nat) \<noteq> 3 \<and>
   (\<exists>self cv. ResNet_init example_tv example_tv example_init ''resnet18'' [1, 28, 28] False (1/2)
                = Inr self \<and>
      conv1_of (network self) = Some cv \<and>
      in_channels cv = 1 \<and> out_channels cv = 64 \<and> kernel_size cv = (7, 7) \<and>
      stride cv = (2, 2) \<and> padding cv = (3, 3) \<and> conv_bias cv = None \<and>
      length (conv_weight cv) = 64 \<and>
      (\<forall>j<64. length (conv_weight cv ! j) = 1 \<and>
         (\<forall>i<1. conv_weight cv ! j ! i = conv_weight example_conv1 ! j ! (i mod 3)))) \<and>
   (0::real) \<le> 1/2 \<and> (1/2::real) \<le> 1 \<and>
   (\<exists>self. ResNet_init example_tv example_tv example_init ''resnet18'' [3, 224, 224] False (1/2)
             = Inr self \<and>
      conv1_of (network self) = Some example_conv1)"
  using conv1_channel_adaptation [where ?net0.0 = example_net and arch = "''resnet18''"
      and ?tv18.0 = example_tv and ?tv50.0 = example_tv and pretrained = False
      and old = example_conv1 and nc = 1 and init = example_init and rest = "[28, 28]"
      and rate = "1/2" and ?rest3.0 = "[224, 224]"] ex_conv1 ex_tv
  by (simp add: example_tv_def)

subsection \<open>ResNet: frozen batch normalisation\<close>

lemma all_off_Module_train:
  "list_all (\<lambda>m. \<not> training m) (modules (Module_train False m))"
proof (induction m)
  case (Module n l t cs)
  then show ?case by (simp add: list_all_iff)
qed

lemma bn_frozen_freeze_bn: "bn_frozen (freeze_bn m)"
  unfolding bn_frozen_def
proof (induction m)
  case (Module n l t cs)
  show ?case
  proof (cases "is_BatchNorm2d l")
    case True
    then show ?thesis
      using all_off_Module_train [of "Module n l t cs"] by (simp add: list_all_iff)
  next
    case False
    then show ?thesis using Module by (simp add: list_all_iff)
  qed
qed

lemma ex_resnet:
  "ResNet_init example_tv example_tv example_init ''resnet18'' [3, 224, 224] False (1/2)
   = Inr example_resnet"
  by (simp add: ResNet_init_def example_tv_def example_net_def example_resnet_def
        get_child_def del_child_def set_child_def Dropout_def)

text \<open>
  Claim C8: after the construction of a ResNet and after every call of \<open>train(mode)\<close>,
  every \<open>nn.BatchNorm2d\<close> module of the network is in evaluation mode, whatever the mode
  of the ResNet itself.
\<close>

theorem batchnorm_stays_frozen:
  "(ResNet_init tv18 tv50 init arch shp pretrained rate = Inr self0 \<longrightarrow>
      bn_frozen (network self0)) \<and>
   bn_frozen (network (ResNet_train mode self)) \<and>
   resnet_training (ResNet_train mode self) = mode"
proof (intro conjI impI)
  assume "ResNet_init tv18 tv50 init arch shp pretrained rate = Inr self0"
  then obtain net3 where "network self0 = freeze_bn net3"
    by (auto simp: ResNet_init_def Let_def split: if_splits sum.splits prod.splits layer.splits)
  then show "bn_frozen (network self0)" by (simp add: bn_frozen_freeze_bn)
next
  show "bn_frozen (network (ResNet_train mode self))"
    by (simp add: ResNet_train_def bn_frozen_freeze_bn)
next
  show "resnet_training (ResNet_train mode self) = mode"
    by (simp add: ResNet_train_def)
qed

theorem batchnorm_stays_frozen_witness:
  "ResNet_init example_tv example_tv example_init ''resnet18'' [3, 224, 224] False (1/2)
     = Inr example_resnet \<and>
   bn_frozen (network example_resnet) \<and>
   bn_frozen (network (ResNet_train True example_resnet)) \<and>
   resnet_training (ResNet_train True example_resnet) = True \<and>
   list_ex (\<lambda>m. is_BatchNorm2d (mlayer m)) (modules (network (ResNet_train True example_resnet)))"
proof -
  have "list_ex (\<lambda>m. is_BatchNorm2d (mlayer m))
          (modules (network (ResNet_train True example_resnet)))"
    by (simp add: ResNet_train_def example_resnet_def)
  then show ?thesis
    using batchnorm_stays_frozen [where ?tv18.0 = example_tv and ?tv50.0 = example_tv
        and init = example_init and arch = "''resnet18''" and shp = "[3, 224, 224]"
        and pretrained = False and rate = "1/2" and ?self0.0 = example_resnet
        and mode = True and self = example_resnet] ex_resnet
    by simp
qed

end
